theory Spec2Isabelle
  imports Complex_Main "HOL-Library.Word"
begin

section \<open>Python values\<close>

text \<open>
  A Python \<open>str\<close> is a sequence of Unicode code points, so it is modelled as a list of
  natural numbers; \<open>str\<close> embeds a literal of 8-bit characters code point by code point.
\<close>

type_synonym pystr = "nat list"

definition str :: "string \<Rightarrow> pystr" where
  "str s = map of_char s"

text \<open>
  \<open>str.lower()\<close> of the Python runtime, code point by code point. The model covers Basic
  Latin and the Latin-1 Supplement (\<open>A-Z\<close> and \<open>U+00C0-U+00DE\<close> without the multiplication
  sign move up by 32) and the two cased code points above \<open>U+00FF\<close> that occur in the
  alias table of this module (\<open>U+0152\<close> and \<open>U+039C\<close>); every other code point is left as
  it is.
\<close>

definition lower_cp :: "nat \<Rightarrow> nat" where
  "lower_cp c =
     (if (0x41 \<le> c \<and> c \<le> 0x5A) \<or> (0xC0 \<le> c \<and> c \<le> 0xDE \<and> c \<noteq> 0xD7) then c + 0x20
      else if c = 0x152 then 0x153
      else if c = 0x39C then 0x3BC
      else c)"



text \<open>
  A dict literal: where a key is written twice, the later entry replaces the earlier one.
\<close>

definition dict_of :: "('k \<times> 'v) list \<Rightarrow> 'k \<rightharpoonup> 'v" where
  "dict_of kvs = map_of (rev kvs)"

section \<open>Name normalization\<close>






















section \<open>Fixed tables of the backend\<close>






definition MOUSE_TYPES :: "nat \<rightharpoonup> pystr" where
  "MOUSE_TYPES = dict_of [
    (0x0080, str ''HID mouse''),
    (0x0100, str ''HID wheel mouse''),
    (0x8000, str ''Mouse with horizontal wheel'')]"

definition KEYBOARD_TYPES :: "nat \<rightharpoonup> pystr" where
  "KEYBOARD_TYPES = dict_of [
    (0x4, str ''Enhanced 101- or 102-key keyboards (and compatibles)''),
    (0x7, str ''Japanese Keyboard''),
    (0x8, str ''Korean Keyboard''),
    (0x51, str ''Unknown type or HID keyboard'')]"

definition GENERIC_DESKTOP_CONTROLS_PAGE_items :: "(nat \<times> pystr) list" where
  "GENERIC_DESKTOP_CONTROLS_PAGE_items = [
    (0x01, str ''Pointer''),
    (0x02, str ''Mouse''),
    (0x04, str ''Joystick''),
    (0x05, str ''Game Pad''),
    (0x06, str ''Keyboard''),
    (0x07, str ''Keypad''),
    (0x08, str ''Multi-axis Controller'')]"

definition GENERIC_DESKTOP_CONTROLS_PAGE :: "nat \<rightharpoonup> pystr" where
  "GENERIC_DESKTOP_CONTROLS_PAGE = dict_of GENERIC_DESKTOP_CONTROLS_PAGE_items"


definition USAGE_PAGE_NAMES :: "nat \<rightharpoonup> pystr \<times> (nat \<rightharpoonup> pystr)" where
  "USAGE_PAGE_NAMES = dict_of [
    (0x01, str ''Generic Desktop Controls'', GENERIC_DESKTOP_CONTROLS_PAGE),
    (0x05, str ''Game Controls'', Map.empty),
    (0x08, str ''LEDs'', Map.empty),
    (0x09, str ''Button'', Map.empty)]"

section \<open>Native structures\<close>

text \<open>
  A \<open>HANDLE\<close> field is a \<open>c_void_p\<close>: ctypes reads a null handle as \<open>None\<close> and any
  other as an integer. A union is modelled by one record per view; a universally
  quantified statement over such a record covers every memory content.
\<close>

type_synonym handle = "nat option"

record RAWINPUTDEVICELIST =
  hDevice :: handle
  dwType :: "32 word"

record RAWINPUTHEADER =
  header_dwType :: "32 word"
  header_dwSize :: "32 word"
  header_hDevice :: handle
  header_wParam :: nat

record RAWMOUSE =
  usFlags :: "16 word"
  ulButtons :: "32 word"
  ulRawButtons :: "32 word"
  lLastX :: "32 word"
  lLastY :: "32 word"
  ulExtraInformation :: "32 word"

record RAWKEYBOARD =
  scan_code :: "16 word"
  flags :: "16 word"
  reserved :: "16 word"
  vk_code :: "16 word"
  message :: "32 word"
  dwExtraInfo :: "32 word"

text \<open>
  \<open>bRawData\<close> is declared as one byte and is the start of the report array: the field
  is modelled by the memory that begins at its address, indexed by byte offset.
\<close>

record RAWHID =
  dwSizeHid :: "32 word"
  dwCount :: "32 word"
  bRawData :: "nat \<Rightarrow> 8 word"

record RAWINPUTUnion =
  mouse :: RAWMOUSE
  keyboard :: RAWKEYBOARD
  hid :: RAWHID

record RAWINPUT =
  header :: RAWINPUTHEADER
  data :: RAWINPUTUnion

record RID_DEVICE_INFO_MOUSE =
  dwId :: "32 word"
  dwNumberOfButtons :: "32 word"
  dwSampleRate :: "32 word"
  fHasHorizontalWheel :: "32 word"

record RID_DEVICE_INFO_KEYBOARD =
  keyboard_dwType :: "32 word"
  dwSubType :: "32 word"
  dwKeyboardMode :: "32 word"
  dwNumberOfFunctionKeys :: "32 word"
  dwNumberOfIndicators :: "32 word"
  dwNumberOfKeysTotal :: "32 word"

record RID_DEVICE_INFO_HID =
  dwVendorId :: "32 word"
  dwProductId :: "32 word"
  dwVersionNumber :: "32 word"
  usUsagePage :: "16 word"
  usUsage :: "16 word"

record RID_DEVICE_INFO_UNION =
  info_mouse :: RID_DEVICE_INFO_MOUSE
  info_keyboard :: RID_DEVICE_INFO_KEYBOARD
  info_hid :: RID_DEVICE_INFO_HID

record RID_DEVICE_INFO =
  cbSize :: "32 word"
  info_dwType :: "32 word"
  u :: RID_DEVICE_INFO_UNION

text \<open>\<open>RID_DEVICE_INFO()\<close>: ctypes zero-initialises a fresh structure.\<close>

definition RID_DEVICE_INFO_zero :: RID_DEVICE_INFO where
  "RID_DEVICE_INFO_zero =
     \<lparr>cbSize = 0, info_dwType = 0,
      u = \<lparr>info_mouse = \<lparr>dwId = 0, dwNumberOfButtons = 0, dwSampleRate = 0,
                           fHasHorizontalWheel = 0\<rparr>,
           info_keyboard = \<lparr>keyboard_dwType = 0, dwSubType = 0, dwKeyboardMode = 0,
                              dwNumberOfFunctionKeys = 0, dwNumberOfIndicators = 0,
                              dwNumberOfKeysTotal = 0\<rparr>,
           info_hid = \<lparr>dwVendorId = 0, dwProductId = 0, dwVersionNumber = 0,
                         usUsagePage = 0, usUsage = 0\<rparr>\<rparr>\<rparr>"


section \<open>Errors and the platform\<close>

datatype error =
    WinError nat
  | AssertionError
  | KeyError
  | IndexError
  | NameError
  | RuntimeError
  | NotImplementedError

text \<open>
  The operating system is a parameter of the model: a record that gives, for every
  platform call the code makes, what the call returns and writes. Each field is named
  after the call; a triple carries the return value, the value written through the
  pointer argument, and the value \<open>GetLastError()\<close> reports afterwards.

  \<open>get_device_name\<close> is called by \<open>get_device\<close> but is defined in neither source file
  (the backend defines \<open>get_device_path\<close>); it is taken as a parameter with the result
  type of a fallible lookup, so every statement below holds whatever it does.
\<close>

record platform =
  GetRawInputDeviceList_count :: nat
  GetRawInputDeviceList_entries :: "RAWINPUTDEVICELIST list"
  get_device_name :: "handle \<Rightarrow> error + pystr"
  GetRawInputDeviceInfoW_name_size :: "handle \<Rightarrow> nat \<times> nat \<times> nat"
  GetRawInputDeviceInfoW_info_size :: "handle \<Rightarrow> nat \<times> nat \<times> nat"
  GetRawInputDeviceInfoW_info :: "handle \<Rightarrow> nat \<times> RID_DEVICE_INFO \<times> nat"
  GetRawInputData_size :: "nat \<Rightarrow> int \<times> nat \<times> nat"
  GetRawInputData_data :: "nat \<Rightarrow> int \<times> RAWINPUT \<times> nat"
  SetWindowLongPtrA :: "nat \<Rightarrow> nat \<times> nat"
  RegisterClassExW :: "nat \<times> nat"
  CreateWindowExW :: "nat \<times> nat"
  RegisterRawInputDevices :: "nat \<Rightarrow> nat \<Rightarrow> nat \<Rightarrow> nat \<times> nat"
  perf_counter :: real

section \<open>Device catalog\<close>

datatype RawInputDevice =
    Mouse (handle: handle) (name: pystr) (mouse_type: pystr) (num_buttons: nat)
      (sample_rate: "nat option") (has_horizontal_wheel: bool)
  | Keyboard (handle: handle) (name: pystr) (keyboard_type: pystr) (subtype: nat)
      (scan_code_mode: nat) (num_function_keys: nat) (num_indicators: nat) (num_keys: nat)
  | HID (handle: handle) (name: pystr) (vendor_id: nat) (product_id: nat)
      (version_number: nat) (usage_page: nat) (usage_page_name: pystr) (usage: nat)
      (usage_name: pystr)

text \<open>\<open>CACHED_DEVICES\<close>, the module-level dict from handle to device.\<close>

type_synonym cache = "handle \<rightharpoonup> RawInputDevice"


definition get_device_info :: "platform \<Rightarrow> handle \<Rightarrow> error + RID_DEVICE_INFO" where
  "get_device_info p device =
     (if device = None then Inr RID_DEVICE_INFO_zero
      else
        (case GetRawInputDeviceInfoW_info_size p device of (ret, info_size, err) \<Rightarrow>
           if ret \<noteq> 0 then Inl (WinError err)
           else
             (case GetRawInputDeviceInfoW_info p device of (ret2, info, err2) \<Rightarrow>
                if ret2 = 0 then Inl (WinError err2)
                else if info_size = 0 then Inl IndexError
                else Inr info)))"

definition is_connected :: "platform \<Rightarrow> handle \<Rightarrow> error + bool" where
  "is_connected p device =
     (case GetRawInputDeviceInfoW_name_size p device of (ret, name_size, err) \<Rightarrow>
        if ret = 0 then Inr True
        else if err = 6 then Inr False
        else Inl (WinError err))"

definition get_device ::
  "platform \<Rightarrow> nat \<Rightarrow> handle \<Rightarrow> cache \<Rightarrow> (error + RawInputDevice) \<times> cache" where
  "get_device p dw_type h c =
     (case c h of
        Some d \<Rightarrow> (Inr d, c)
      | None \<Rightarrow>
         (case get_device_name p h of
            Inl e \<Rightarrow> (Inl e, c)
          | Inr nm \<Rightarrow>
             (case get_device_info p h of
                Inl e \<Rightarrow> (Inl e, c)
              | Inr info \<Rightarrow>
                 if dw_type = 0 then
                   let m = info_mouse (u info);
                       device = Mouse h nm
                         (case MOUSE_TYPES (unat (dwId m)) of Some t \<Rightarrow> t
                          | None \<Rightarrow> str ''unknown'')
                         (unat (dwNumberOfButtons m))
                         (if unat (dwSampleRate m) = 0 then None
                          else Some (unat (dwSampleRate m)))
                         (fHasHorizontalWheel m \<noteq> 0)
                   in (Inr device, c(h \<mapsto> device))
                 else if dw_type = 1 then
                   let k = info_keyboard (u info);
                       device = Keyboard h nm
                         (case KEYBOARD_TYPES (unat (keyboard_dwType k)) of Some t \<Rightarrow> t
                          | None \<Rightarrow> str ''unknown'')
                         (unat (dwSubType k)) (unat (dwKeyboardMode k))
                         (unat (dwNumberOfFunctionKeys k)) (unat (dwNumberOfIndicators k))
                         (unat (dwNumberOfKeysTotal k))
                   in (Inr device, c(h \<mapsto> device))
                 else if dw_type = 2 then
                   let i = info_hid (u info);
                       usage_page = unat (usUsagePage i);
                       (usage_page_name, page_entries) =
                         (case USAGE_PAGE_NAMES usage_page of Some pe \<Rightarrow> pe
                          | None \<Rightarrow> (str ''unknown'', Map.empty));
                       usage = unat (usUsage i);
                       usage_name =
                         (case page_entries usage of Some n \<Rightarrow> n | None \<Rightarrow> str ''unknown'');
                       device = HID h nm (unat (dwVendorId i)) (unat (dwProductId i))
                         (unat (dwVersionNumber i)) usage_page usage_page_name usage usage_name
                   in (Inr device, c(h \<mapsto> device))
                 else (Inl NotImplementedError, c))))"



section \<open>Raw notification decoder\<close>

record RawInputEvent =
  event_type :: pystr
  code :: int
  name :: "pystr option"
  device_type :: pystr
  device :: RawInputDevice
  delta_x :: "int option"
  delta_y :: "int option"
  hwnd :: nat
  time :: real
  data :: "8 word list option"










section \<open>Message interception\<close>










section \<open>Reachable caches\<close>



section \<open>Platform error codes\<close>

text \<open>
  System error codes as the platform documents them. The source compares the last error
  with the literal \<open>6\<close>.
\<close>

definition ERROR_ACCESS_DENIED :: nat where
  "ERROR_ACCESS_DENIED = 5"

definition ERROR_INVALID_HANDLE :: nat where
  "ERROR_INVALID_HANDLE = 6"

definition ERROR_NOT_FOUND :: nat where
  "ERROR_NOT_FOUND = 1168"

section \<open>Alias targets that are not lower case\<close>



section \<open>Auxiliary predicates\<close>


section \<open>A platform double\<close>

text \<open>
  A concrete platform on which the statements below are exercised: handle 1 is a
  keyboard, every query succeeds, and the pending notification is a key-down of the
  \<open>A\<close> key. The examples replace single fields.
\<close>

definition info_double :: RID_DEVICE_INFO where
  "info_double =
     \<lparr>cbSize = 32, info_dwType = 0,
      u = \<lparr>info_mouse = \<lparr>dwId = 0x100, dwNumberOfButtons = 5, dwSampleRate = 0,
                           fHasHorizontalWheel = 1\<rparr>,
           info_keyboard = \<lparr>keyboard_dwType = 0x51, dwSubType = 0, dwKeyboardMode = 1,
                              dwNumberOfFunctionKeys = 12, dwNumberOfIndicators = 3,
                              dwNumberOfKeysTotal = 101\<rparr>,
           info_hid = \<lparr>dwVendorId = 0x45E, dwProductId = 0x28E, dwVersionNumber = 1,
                         usUsagePage = 1, usUsage = 5\<rparr>\<rparr>\<rparr>"

definition raw_double ::
  "32 word \<Rightarrow> 32 word \<Rightarrow> handle \<Rightarrow> 32 word \<Rightarrow> 16 word \<Rightarrow> 16 word \<Rightarrow> 32 word \<Rightarrow> RAWINPUT" where
  "raw_double ty sz h buttons sc vk msg =
     \<lparr>header = \<lparr>header_dwType = ty, header_dwSize = sz, header_hDevice = h,
                 header_wParam = 0\<rparr>,
      data = \<lparr>mouse = \<lparr>usFlags = 0, ulButtons = buttons, ulRawButtons = 0, lLastX = 5,
                        lLastY = - 3, ulExtraInformation = 0\<rparr>,
              keyboard = \<lparr>scan_code = sc, flags = 0, reserved = 0, vk_code = vk,
                           message = msg, dwExtraInfo = 0\<rparr>,
              hid = \<lparr>dwSizeHid = 4, dwCount = 3,
                      bRawData = (\<lambda>i. if i < 16 then of_nat (i + 1) else 0xEE)\<rparr>\<rparr>\<rparr>"

definition platform_double :: platform where
  "platform_double =
     \<lparr>GetRawInputDeviceList_count = 3,
      GetRawInputDeviceList_entries =
        [\<lparr>hDevice = Some 1, dwType = 1\<rparr>, \<lparr>hDevice = Some 2, dwType = 0\<rparr>,
         \<lparr>hDevice = Some 3, dwType = 2\<rparr>],
      get_device_name = (\<lambda>h. Inr (str ''device'')),
      GetRawInputDeviceInfoW_name_size = (\<lambda>h. (0, 32, 0)),
      GetRawInputDeviceInfoW_info_size = (\<lambda>h. (0, 32, 0)),
      GetRawInputDeviceInfoW_info = (\<lambda>h. (32, info_double, 0)),
      GetRawInputData_size = (\<lambda>l. (0, 40, 0)),
      GetRawInputData_data = (\<lambda>l. (40, raw_double 1 40 (Some 1) 0 0x1E 0x41 256, 40)),
      SetWindowLongPtrA = (\<lambda>w. (0x7FF0, 0)),
      RegisterClassExW = (1, 0),
      CreateWindowExW = (0x50, 0),
      RegisterRawInputDevices = (\<lambda>page usg w. (1, 0)),
      perf_counter = 0\<rparr>"

definition platform_info_fails :: platform where
  "platform_info_fails =
     platform_double\<lparr>GetRawInputDeviceInfoW_info_size := (\<lambda>h. (0xFFFFFFFF, 0, 6))\<rparr>"

text \<open>
  The name lookup raises \<open>NameError\<close>, as a call of a name that no module defines does.
\<close>

definition platform_name_undefined :: platform where
  "platform_name_undefined = platform_double\<lparr>get_device_name := (\<lambda>h. Inl NameError)\<rparr>"

definition hid_double :: RawInputDevice where
  "hid_double =
     HID (Some 3) (str ''device'') 0x45E 0x28E 1 1 (str ''Generic Desktop Controls'') 5
       (str ''Game Pad'')"








text \<open>
  The name query of \<open>is_connected\<close> returns \<open>ret\<close> and leaves \<open>err\<close> as the last
  error.
\<close>

definition platform_name_query :: "nat \<Rightarrow> nat \<Rightarrow> platform" where
  "platform_name_query ret err =
     platform_double\<lparr>GetRawInputDeviceInfoW_name_size := (\<lambda>h. (ret, 0, err))\<rparr>"





section \<open>Evaluating dict literals\<close>




section \<open>Device catalog: lookups\<close>


lemma get_device_info_double: "get_device_info platform_double (Some n) = Inr info_double"
  by (simp add: get_device_info_def platform_double_def)

lemma get_device_name_double: "get_device_name platform_double h = Inr (str ''device'')"
  by (simp add: platform_double_def)



text \<open>
  C10, as the code has it. A cached handle is answered from the cache, whatever
  \<open>dw_type\<close> is and without a platform call. For a handle that is not cached the name and
  info lookups run before \<open>dw_type\<close> is looked at: a lookup that fails is what
  \<open>get_device\<close> raises, and only when both succeed is the unsupported-class error raised,
  exactly for a \<open>dw_type\<close> other than 0, 1 and 2.
\<close>

theorem get_device_errors:
  "(c h = Some d \<longrightarrow> get_device p dw_type h c = (Inr d, c)) \<and>
   (c h = None \<longrightarrow> get_device_name p h = Inl e \<longrightarrow> get_device p dw_type h c = (Inl e, c)) \<and>
   (c h = None \<longrightarrow> get_device_name p h = Inr nm \<longrightarrow> get_device_info p h = Inl e \<longrightarrow>
      get_device p dw_type h c = (Inl e, c)) \<and>
   (c h = None \<longrightarrow> get_device_name p h = Inr nm \<longrightarrow> get_device_info p h = Inr info \<longrightarrow>
      (fst (get_device p dw_type h c) = Inl NotImplementedError) = (dw_type \<notin> {0, 1, 2}))"
  by (auto simp: get_device_def Let_def split: prod.splits)

theorem get_device_errors_witness:
  "get_device platform_double 9 (Some 3) [Some 3 \<mapsto> hid_double] =
     (Inr hid_double, [Some 3 \<mapsto> hid_double]) \<and>
   get_device platform_info_fails 9 (Some 4) Map.empty = (Inl (WinError 6), Map.empty) \<and>
   fst (get_device platform_double 9 (Some 4) Map.empty) = Inl NotImplementedError \<and>
   fst (get_device platform_double 2 (Some 4) Map.empty) \<noteq> Inl NotImplementedError"
  using get_device_errors [where c = "[Some 3 \<mapsto> hid_double]" and h = "Some 3"
          and d = hid_double and p = platform_double and dw_type = 9]
        get_device_errors [where c = Map.empty and h = "Some 4" and p = platform_info_fails
          and e = "WinError 6" and dw_type = 9 and nm = "str ''device''"]
        get_device_errors [where c = Map.empty and h = "Some 4" and p = platform_double
          and dw_type = 9 and nm = "str ''device''" and info = info_double]
        get_device_errors [where c = Map.empty and h = "Some 4" and p = platform_double
          and dw_type = 2 and nm = "str ''device''" and info = info_double]
  by (simp add: get_device_info_double get_device_name_double get_device_info_def
        platform_info_fails_def platform_double_def)

text \<open>
  C10 as stated fails: handle 4 is not cached and \<open>dw_type\<close> 3 is no supported class, yet
  the error raised is the failure of the lookup that runs first, of the info lookup on one
  platform and of the name lookup on the other.
\<close>

theorem unsupported_class_counterexample:
  "Map.empty (Some 4) = (None :: RawInputDevice option) \<and> (3::nat) \<notin> {0, 1, 2} \<and>
   fst (get_device platform_info_fails 3 (Some 4) Map.empty) = Inl (WinError 6) \<and>
   fst (get_device platform_name_undefined 3 (Some 4) Map.empty) = Inl NameError"
  by (simp add: get_device_def get_device_info_def platform_info_fails_def
        platform_name_undefined_def platform_double_def)

section \<open>Raw notification decoder: properties\<close>


























section \<open>Connectivity check\<close>

text \<open>
  C4, as the code has it. \<open>is_connected\<close> returns true exactly when the name query
  returns 0, returns false exactly when the query fails and the last error is 6, which is
  the platform's invalid-handle code, and raises every other failure with its error code.
\<close>

theorem is_connected_cases:
  assumes "GetRawInputDeviceInfoW_name_size p h = (ret, name_size, err)"
  shows "(is_connected p h = Inr True) = (ret = 0) \<and>
         (is_connected p h = Inr False) = (ret \<noteq> 0 \<and> err = ERROR_INVALID_HANDLE) \<and>
         (ret \<noteq> 0 \<and> err \<noteq> ERROR_INVALID_HANDLE \<longrightarrow> is_connected p h = Inl (WinError err))"
  using assms by (auto simp: is_connected_def ERROR_INVALID_HANDLE_def)

theorem is_connected_cases_witness:
  "is_connected (platform_name_query 0 0) (Some 1) = Inr True \<and>
   is_connected (platform_name_query 0xFFFFFFFF ERROR_INVALID_HANDLE) (Some 1) = Inr False \<and>
   is_connected (platform_name_query 0xFFFFFFFF ERROR_ACCESS_DENIED) (Some 1) =
     Inl (WinError ERROR_ACCESS_DENIED)"
  using is_connected_cases [where p = "platform_name_query 0 0" and h = "Some 1" and ret = 0
      and name_size = 0 and err = 0]
    is_connected_cases [where p = "platform_name_query 0xFFFFFFFF ERROR_INVALID_HANDLE"
      and h = "Some 1" and ret = "0xFFFFFFFF" and name_size = 0 and err = ERROR_INVALID_HANDLE]
    is_connected_cases [where p = "platform_name_query 0xFFFFFFFF ERROR_ACCESS_DENIED"
      and h = "Some 1" and ret = "0xFFFFFFFF" and name_size = 0 and err = ERROR_ACCESS_DENIED]
  by (simp add: platform_name_query_def platform_double_def ERROR_INVALID_HANDLE_def
        ERROR_ACCESS_DENIED_def)

text \<open>
  C4 as stated fails in both directions: a query that fails with the element-not-found
  code is raised, not answered with false, and one that fails with the invalid-handle
  code is answered with false, not raised.
\<close>

theorem is_connected_counterexample:
  "is_connected (platform_name_query 0xFFFFFFFF ERROR_NOT_FOUND) (Some 1) =
     Inl (WinError ERROR_NOT_FOUND) \<and>
   is_connected (platform_name_query 0xFFFFFFFF ERROR_INVALID_HANDLE) (Some 1) = Inr False"
  by (simp add: is_connected_def platform_name_query_def platform_double_def
        ERROR_NOT_FOUND_def ERROR_INVALID_HANDLE_def)

section \<open>Device catalog: enumeration and the cache\<close>


















section \<open>Message interception: properties\<close>












section \<open>Name normalization: properties\<close>



lemma lower_cp_underscore: "(lower_cp c = 0x5F) = (c = 0x5F)"
  by (auto simp: lower_cp_def)































end
